theory Spec2Isabelle
  imports Main "HOL-Library.Word"
begin

section \<open>Vault provider: token negotiation and revocation (pkg/provider/vault/auth.go)\<close>

subsection \<open>Values\<close>

text \<open>
  Go errors are values. \<open>New\<close> is \<^verbatim>\<open>errors.New\<close>; \<open>Errorf f args e\<close> is
  \<^verbatim>\<open>fmt.Errorf(f, args..., e)\<close> with the wrapped error \<open>e\<close> at the \<^verbatim>\<open>%w\<close> verb.
  A \<^verbatim>\<open>nil\<close> error is \<open>None\<close> of \<open>error option\<close>.
\<close>

datatype error = New string | Errorf string "string list" error

text \<open>
  A call either returns or panics (a failed type assertion, a nil dereference).
\<close>

datatype 'a outcome = Returned 'a | Panic

text \<open>
  The dynamic values (\<^verbatim>\<open>interface{}\<close>) found in the data of a lookup response: \<^verbatim>\<open>nil\<close>,
  a \<^verbatim>\<open>string\<close>, a \<^verbatim>\<open>json.Number\<close> (its literal text), or a value of any other type.
\<close>

datatype jvalue = JNil | JString string | JNumber string | JOther

type_synonym int64 = "64 word"

record Secret =
  Data :: "string \<rightharpoonup> jvalue"

definition errAuthFormat :: string where
  "errAuthFormat = ''cannot initialize Vault client: no valid auth method specified''"

definition errVaultToken :: string where
  "errVaultToken = ''cannot parse Vault authentication token: %w''"

definition errGetKubeSATokenRequest :: string where
  "errGetKubeSATokenRequest =
     ''cannot request Kubernetes service account token for service account %q: %w''"

definition errVaultRevokeToken :: string where
  "errVaultRevokeToken = ''error while revoking token: %w''"

subsection \<open>Configuration and session state\<close>

text \<open>
  Of the auth configuration this file reads the \<^verbatim>\<open>Namespace\<close> only; the mechanism
  sub-configurations are read by the mechanism strategies, which live in other files.
\<close>

record VaultAuth =
  Namespace :: "string option"

record VaultProvider =
  Auth :: "VaultAuth option"
  Namespace :: "string option"

text \<open>
  \<^verbatim>\<open>util.Client\<close>, the handle of the backend SDK: the token it holds and its active
  namespace.
\<close>

record util_Client =
  token :: string
  activeNamespace :: string

definition Token :: "util_Client \<Rightarrow> string" where
  "Token h = token h"

datatype apicall = CallHCVaultLookupSelf | CallHCVaultRevokeSelf

text \<open>
  The \<^verbatim>\<open>client\<close> struct, together with what its calls reach: \<open>store\<close> (a pointer, so
  optional), the SDK handle \<open>client\<close>, the logger's output \<open>log\<close> (message and
  arguments), the process-wide metrics \<open>apicalls\<close> and the state \<open>world\<close> of everything
  outside the process (the backend, the cluster).
\<close>

record 'w client =
  store :: "VaultProvider option"
  client :: util_Client
  log :: "(string \<times> string list) list"
  apicalls :: "(apicall \<times> error option) list"
  world :: 'w

definition SetNamespace :: "string \<Rightarrow> 'w client \<Rightarrow> 'w client" where
  "SetNamespace ns c = c\<lparr>client := (client c)\<lparr>activeNamespace := ns\<rparr>\<rparr>"

definition ClearToken :: "'w client \<Rightarrow> 'w client" where
  "ClearToken c = c\<lparr>client := (client c)\<lparr>token := []\<rparr>\<rparr>"

definition Info :: "string \<Rightarrow> string list \<Rightarrow> 'w client \<Rightarrow> 'w client" where
  "Info msg args c = c\<lparr>log := log c @ [(msg, args)]\<rparr>"

definition ObserveAPICall :: "apicall \<Rightarrow> error option \<Rightarrow> 'w client \<Rightarrow> 'w client" where
  "ObserveAPICall call err c = c\<lparr>apicalls := apicalls c @ [(call, err)]\<rparr>"

subsection \<open>Collaborators\<close>

text \<open>
  The calls this file makes into code it does not contain are parameters.
  \<open>LookupSelfWithContext\<close> and \<open>RevokeSelfWithContext\<close> are the methods of
  \<^verbatim>\<open>util.Token\<close>: they read the handle, act on the world and return the SDK's pair of
  response and error (the revoke call the error only). \<open>Int64\<close> is the method of
  \<^verbatim>\<open>json.Number\<close>, from the literal text to a 64-bit integer or an error.
\<close>

record 'w collaborators =
  LookupSelfWithContext :: "'w \<Rightarrow> util_Client \<Rightarrow> (Secret option \<times> error option) \<times> 'w"
  RevokeSelfWithContext :: "'w \<Rightarrow> util_Client \<Rightarrow> string \<Rightarrow> error option \<times> 'w"
  Int64 :: "string \<Rightarrow> error + int64"

text \<open>
  The mechanism strategies share the contract \<^verbatim>\<open>(tokenExists bool, err error)\<close> and
  receive the \<^verbatim>\<open>client\<close> struct, which they may change. The certificate strategy also
  receives the SDK configuration \<^verbatim>\<open>cfg\<close>.
\<close>

type_synonym 'w strategy = "'w client \<Rightarrow> (bool \<times> error option) \<times> 'w client"

record ('w, 'cfg) strategies =
  setSecretKeyToken :: "'w strategy"
  setAppRoleToken :: "'w strategy"
  setKubernetesAuthToken :: "'w strategy"
  setLdapAuthToken :: "'w strategy"
  setUserPassAuthToken :: "'w strategy"
  setJwtAuthToken :: "'w strategy"
  setCertAuthToken :: "'w client \<Rightarrow> 'cfg \<Rightarrow> (bool \<times> error option) \<times> 'w client"
  setIamAuthToken :: "'w strategy"

datatype mechanism =
  SecretKeyToken | AppRole | Kubernetes | Ldap | UserPass | Jwt | Cert | Iam

subsection \<open>checkToken\<close>

text \<open>
  \<^verbatim>\<open>checkToken\<close> looks the token up, records the call in the metrics and judges the
  response. The two unchecked type assertions \<^verbatim>\<open>t.(string)\<close> and
  \<^verbatim>\<open>ttl.(json.Number)\<close> panic on a value of another type.
\<close>

definition checkToken ::
  "'w collaborators \<Rightarrow> 'w client \<Rightarrow> (bool \<times> error option) outcome \<times> 'w client" where
  "checkToken E c =
    (let ((resp, err), w) = LookupSelfWithContext E (world c) (client c);
         c' = ObserveAPICall CallHCVaultLookupSelf err (c\<lparr>world := w\<rparr>)
     in ((case err of
           Some e \<Rightarrow> Returned (False, Some e)
         | None \<Rightarrow>
          (case resp of
             None \<Rightarrow> Returned (False, Some (New ''no response nor error for token lookup''))
           | Some secret \<Rightarrow>
            (case Data secret ''type'' of
               None \<Rightarrow> Returned (False, Some (New ''could not assert token type''))
             | Some t \<Rightarrow>
              (case t of
                 JString tokenType \<Rightarrow>
                  if tokenType = ''batch'' then Returned (False, None)
                  else
                   (case Data secret ''ttl'' of
                      None \<Rightarrow> Returned (False, Some (New ''no TTL found in response''))
                    | Some ttl \<Rightarrow>
                     (case ttl of
                        JNumber num \<Rightarrow>
                         (case Int64 E num of
                            Inl e \<Rightarrow>
                              Returned (False, Some (Errorf ''invalid token TTL: %v: %w'' [num] e))
                          | Inr ttlInt \<Rightarrow>
                           (case Data secret ''expire_time'' of
                              None \<Rightarrow>
                                Returned
                                  (False, Some (New ''no expiration time found in response''))
                            | Some expireTime \<Rightarrow>
                                if sint ttlInt < 60 \<and> expireTime \<noteq> JNil
                                then Returned (False, None)
                                else Returned (True, None)))
                      | _ \<Rightarrow> Panic))
               | _ \<Rightarrow> Panic)))), c'))"

subsection \<open>revokeTokenIfValid\<close>

definition revokeTokenIfValid ::
  "'w collaborators \<Rightarrow> 'w client \<Rightarrow> error option outcome \<times> 'w client" where
  "revokeTokenIfValid E c =
    (case checkToken E c of
       (Panic, c1) \<Rightarrow> (Panic, c1)
     | (Returned (valid, err), c1) \<Rightarrow>
        (case err of
           Some e \<Rightarrow> (Returned (Some (Errorf errVaultRevokeToken [] e)), c1)
         | None \<Rightarrow>
            if valid then
              (let (err, w) = RevokeSelfWithContext E (world c1) (client c1) (Token (client c1));
                   c2 = ObserveAPICall CallHCVaultRevokeSelf err (c1\<lparr>world := w\<rparr>)
               in (case err of
                     Some e \<Rightarrow> (Returned (Some (Errorf errVaultRevokeToken [] e)), c2)
                   | None \<Rightarrow> (Returned None, ClearToken c2)))
            else (Returned None, c1)))"

subsection \<open>useAuthNamespace\<close>

text \<open>
  The function returns the closure to defer: a state transformer. Reading
  \<^verbatim>\<open>c.store.Auth\<close> through a nil \<^verbatim>\<open>c.store\<close> panics.
\<close>

definition useAuthNamespace ::
  "'w client \<Rightarrow> ('w client \<Rightarrow> 'w client) outcome \<times> 'w client" where
  "useAuthNamespace c =
    (let ns = (case store c of
                 None \<Rightarrow> []
               | Some st \<Rightarrow> (case VaultProvider.Namespace st of None \<Rightarrow> [] | Some n \<Rightarrow> n))
     in (case store c of
           None \<Rightarrow> (Panic, c)
         | Some st \<Rightarrow>
            (case Auth st of
               None \<Rightarrow> (Returned (\<lambda>c'. c'), c)
             | Some a \<Rightarrow>
                (case VaultAuth.Namespace a of
                   None \<Rightarrow> (Returned (\<lambda>c'. c'), c)
                 | Some an \<Rightarrow>
                    if an \<noteq> ns then
                      (Returned
                         (\<lambda>c'. SetNamespace ns
                                 (Info ''Restoring client namespace to namespace=%s'' [ns] c')),
                       SetNamespace an
                         (Info ''Using namespace=%s for the vault login'' [an] c))
                    else (Returned (\<lambda>c'. c'), c)))))"

subsection \<open>setAuth\<close>

text \<open>
  The walk over the mechanism strategies (the part of \<^verbatim>\<open>setAuth\<close> after the check of
  the held token). Beside the error and the state it returns the list of the strategies
  it has invoked, in the order of the calls; the list is a record for the theorems and
  does not influence the run.
\<close>

definition setAuth_chain ::
  "('w, 'cfg) strategies \<Rightarrow> 'cfg \<Rightarrow> 'w client \<Rightarrow> error option \<times> 'w client \<times> mechanism list"
  where
  "setAuth_chain S cfg c0 =
    (let ((tokenExists, err), c1) = setSecretKeyToken S c0 in
     if tokenExists then (err, Info ''Set token from secret'' [] c1, [SecretKeyToken])
     else
     let ((tokenExists, err), c2) = setAppRoleToken S c1 in
     if tokenExists then
       (err, Info ''Retrieved new token using AppRole auth'' [] c2, [SecretKeyToken, AppRole])
     else
     let ((tokenExists, err), c3) = setKubernetesAuthToken S c2 in
     if tokenExists then
       (err, Info ''Retrieved new token using Kubernetes auth'' [] c3,
        [SecretKeyToken, AppRole, Kubernetes])
     else
     let ((tokenExists, err), c4) = setLdapAuthToken S c3 in
     if tokenExists then
       (err, Info ''Retrieved new token using LDAP auth'' [] c4,
        [SecretKeyToken, AppRole, Kubernetes, Ldap])
     else
     let ((tokenExists, err), c5) = setUserPassAuthToken S c4 in
     if tokenExists then
       (err, Info ''Retrieved new token using userPass auth'' [] c5,
        [SecretKeyToken, AppRole, Kubernetes, Ldap, UserPass])
     else
     let ((tokenExists, err), c6) = setJwtAuthToken S c5 in
     if tokenExists then
       (err, Info ''Retrieved new token using JWT auth'' [] c6,
        [SecretKeyToken, AppRole, Kubernetes, Ldap, UserPass, Jwt])
     else
     let ((tokenExists, err), c7) = setCertAuthToken S c6 cfg in
     if tokenExists then
       (err, Info ''Retrieved new token using certificate auth'' [] c7,
        [SecretKeyToken, AppRole, Kubernetes, Ldap, UserPass, Jwt, Cert])
     else
     let ((tokenExists, err), c8) = setIamAuthToken S c7 in
     if tokenExists then
       (err, Info ''Retrieved new token using IAM auth'' [] c8,
        [SecretKeyToken, AppRole, Kubernetes, Ldap, UserPass, Jwt, Cert, Iam])
     else
       (Some (New errAuthFormat), c8,
        [SecretKeyToken, AppRole, Kubernetes, Ldap, UserPass, Jwt, Cert, Iam]))"

text \<open>
  The check of the held token: the lookup is made only when the handle holds a token.
\<close>

definition setAuth_check ::
  "'w collaborators \<Rightarrow> 'w client \<Rightarrow> (bool \<times> error option) outcome \<times> 'w client" where
  "setAuth_check E c =
    (if Token (client c) \<noteq> [] then checkToken E c else (Returned (False, None), c))"

text \<open>
  The part of \<^verbatim>\<open>setAuth\<close> that runs under the deferred restore.
\<close>

definition setAuth_body ::
  "'w collaborators \<Rightarrow> ('w, 'cfg) strategies \<Rightarrow> 'cfg \<Rightarrow> 'w client
     \<Rightarrow> error option outcome \<times> 'w client \<times> mechanism list" where
  "setAuth_body E S cfg c =
    (case setAuth_check E c of
       (Panic, c1) \<Rightarrow> (Panic, c1, [])
     | (Returned (tokenExists, err), c1) \<Rightarrow>
        if tokenExists then (Returned err, Info ''Re-using existing token'' [] c1, [])
        else (case setAuth_chain S cfg c1 of (err, c2, invoked) \<Rightarrow> (Returned err, c2, invoked)))"

text \<open>
  The state in which \<^verbatim>\<open>useAuthNamespace\<close> is called: the handle is set to the store's
  namespace when there is one.
\<close>

definition setAuth_enter :: "VaultProvider \<Rightarrow> 'w client \<Rightarrow> 'w client" where
  "setAuth_enter st c =
    (case VaultProvider.Namespace st of None \<Rightarrow> c | Some n \<Rightarrow> SetNamespace n c)"

text \<open>
  \<^verbatim>\<open>setAuth\<close>. The deferred closure runs on the state the body leaves, whether the body
  returns or panics.
\<close>

definition setAuth ::
  "'w collaborators \<Rightarrow> ('w, 'cfg) strategies \<Rightarrow> 'cfg \<Rightarrow> 'w client
     \<Rightarrow> error option outcome \<times> 'w client \<times> mechanism list" where
  "setAuth E S cfg c =
    (case store c of
       None \<Rightarrow> (Panic, c, [])
     | Some st \<Rightarrow>
        (case Auth st of
           None \<Rightarrow> (Returned None, c, [])
         | Some a \<Rightarrow>
            (case useAuthNamespace (setAuth_enter st c) of
               (Panic, c1) \<Rightarrow> (Panic, c1, [])
             | (Returned restoreNamespace, c1) \<Rightarrow>
                (case setAuth_body E S cfg c1 of
                   (r, c2, invoked) \<Rightarrow> (r, restoreNamespace c2, invoked)))))"

subsection \<open>createServiceAccountToken\<close>

record ServiceAccountSelector =
  Name :: string
  Namespace :: "string option"
  Audiences :: "string list"

record ObjectMeta =
  Namespace :: string

record TokenRequestSpec =
  Audiences :: "string list"
  ExpirationSeconds :: "int64 option"

record TokenRequest =
  ObjectMeta :: ObjectMeta
  Spec :: TokenRequestSpec

text \<open>
  Modelled from the spec: the constant \<^verbatim>\<open>esv1.ClusterSecretStoreKind\<close> is declared in the
  package of the API types; the spec calls it the cluster-wide store kind.
\<close>

definition ClusterSecretStoreKind :: string where
  "ClusterSecretStoreKind = ''ClusterSecretStore''"

text \<open>
  The token request that \<^verbatim>\<open>createServiceAccountToken\<close> builds before it calls the
  cluster.
\<close>

definition createServiceAccountToken_request ::
  "string \<Rightarrow> string \<Rightarrow> ServiceAccountSelector \<Rightarrow> string list \<Rightarrow> int64 \<Rightarrow> TokenRequest" where
  "createServiceAccountToken_request storeKind namespace serviceAccountRef additionalAud
       expirationSeconds =
    (let audiences = ServiceAccountSelector.Audiences serviceAccountRef;
         audiences = (if length additionalAud > 0 then audiences @ additionalAud
                      else audiences);
         tokenRequest =
           \<lparr>ObjectMeta = \<lparr>ObjectMeta.Namespace = namespace\<rparr>,
            Spec = \<lparr>TokenRequestSpec.Audiences = audiences,
                    ExpirationSeconds = Some expirationSeconds\<rparr>\<rparr>
     in (case ServiceAccountSelector.Namespace serviceAccountRef of
           Some n \<Rightarrow>
             if storeKind = ClusterSecretStoreKind
             then tokenRequest\<lparr>ObjectMeta := \<lparr>ObjectMeta.Namespace = n\<rparr>\<rparr>
             else tokenRequest
         | None \<Rightarrow> tokenRequest))"

text \<open>
  \<open>CreateToken\<close> is the cluster's token-request call, given the namespace, the name of
  the service account and the request; it answers with a token or an error.
\<close>

definition createServiceAccountToken ::
  "(string \<Rightarrow> string \<Rightarrow> TokenRequest \<Rightarrow> error + string) \<Rightarrow> string \<Rightarrow> string
     \<Rightarrow> ServiceAccountSelector \<Rightarrow> string list \<Rightarrow> int64 \<Rightarrow> string \<times> error option" where
  "createServiceAccountToken CreateToken storeKind namespace serviceAccountRef additionalAud
       expirationSeconds =
    (let tokenRequest =
           createServiceAccountToken_request storeKind namespace serviceAccountRef
             additionalAud expirationSeconds
     in (case CreateToken (ObjectMeta.Namespace (ObjectMeta tokenRequest))
                (Name serviceAccountRef) tokenRequest of
           Inl err \<Rightarrow>
             ([], Some (Errorf errGetKubeSATokenRequest [Name serviceAccountRef] err))
         | Inr tok \<Rightarrow> (tok, None)))"

subsection \<open>The chain as the specification words it\<close>

text \<open>
  The specification describes the walk as a fixed priority order and a rule: go to the
  next strategy while the current one reports that it has not attempted, stop at the first
  one that has and return its error, and fail when the order is exhausted. The following
  definitions say this over an arbitrary list of mechanisms; they are compared with
  \<open>setAuth_chain\<close> below.
\<close>

definition priority_order :: "mechanism list" where
  "priority_order = [SecretKeyToken, AppRole, Kubernetes, Ldap, UserPass, Jwt, Cert, Iam]"

fun strategy_of :: "('w, 'cfg) strategies \<Rightarrow> 'cfg \<Rightarrow> mechanism \<Rightarrow> 'w strategy" where
  "strategy_of S cfg SecretKeyToken = setSecretKeyToken S"
| "strategy_of S cfg AppRole = setAppRoleToken S"
| "strategy_of S cfg Kubernetes = setKubernetesAuthToken S"
| "strategy_of S cfg Ldap = setLdapAuthToken S"
| "strategy_of S cfg UserPass = setUserPassAuthToken S"
| "strategy_of S cfg Jwt = setJwtAuthToken S"
| "strategy_of S cfg Cert = (\<lambda>c. setCertAuthToken S c cfg)"
| "strategy_of S cfg Iam = setIamAuthToken S"

fun acquired_message :: "mechanism \<Rightarrow> string" where
  "acquired_message SecretKeyToken = ''Set token from secret''"
| "acquired_message AppRole = ''Retrieved new token using AppRole auth''"
| "acquired_message Kubernetes = ''Retrieved new token using Kubernetes auth''"
| "acquired_message Ldap = ''Retrieved new token using LDAP auth''"
| "acquired_message UserPass = ''Retrieved new token using userPass auth''"
| "acquired_message Jwt = ''Retrieved new token using JWT auth''"
| "acquired_message Cert = ''Retrieved new token using certificate auth''"
| "acquired_message Iam = ''Retrieved new token using IAM auth''"

fun spec_walk ::
  "('w, 'cfg) strategies \<Rightarrow> 'cfg \<Rightarrow> mechanism list \<Rightarrow> 'w client
     \<Rightarrow> error option \<times> 'w client \<times> mechanism list" where
  "spec_walk S cfg [] c = (Some (New errAuthFormat), c, [])"
| "spec_walk S cfg (m # ms) c =
    (case strategy_of S cfg m c of
       ((attempted, err), c') \<Rightarrow>
         if attempted then (err, Info (acquired_message m) [] c', [m])
         else (case spec_walk S cfg ms c' of
                 (r, c'', invoked) \<Rightarrow> (r, c'', m # invoked)))"

text \<open>
  Every strategy of the list, called in turn on the state its predecessor left, reports
  that it has not attempted.
\<close>

fun spec_allDeclined ::
  "('w, 'cfg) strategies \<Rightarrow> 'cfg \<Rightarrow> mechanism list \<Rightarrow> 'w client \<Rightarrow> bool" where
  "spec_allDeclined S cfg [] c = True"
| "spec_allDeclined S cfg (m # ms) c =
    (case strategy_of S cfg m c of
       ((attempted, err), c') \<Rightarrow> \<not> attempted \<and> spec_allDeclined S cfg ms c')"

subsection \<open>Sample collaborators and sessions\<close>

text \<open>
  A sample backend, used to evaluate the functions on concrete sessions. Its world is the
  list of the tokens revoked so far. It rejects a lookup made without a token or with a
  revoked one and answers every other lookup with the data \<open>d\<close>. A revoke call answers
  \<open>revokeErr\<close>, and adds the token to the list when that is no error. The sample \<open>Int64\<close>
  reads the two numerals the examples use.
\<close>

definition ex_Int64 :: "string \<Rightarrow> error + int64" where
  "ex_Int64 s =
    (if s = ''3600'' then Inr 3600
     else if s = ''59'' then Inr 59
     else Inl (New ''strconv.ParseInt: invalid syntax''))"

definition ex_backend :: "(string \<rightharpoonup> jvalue) \<Rightarrow> error option \<Rightarrow> string list collaborators"
  where
  "ex_backend d revokeErr =
    \<lparr>LookupSelfWithContext =
       (\<lambda>revoked h.
          if token h = [] \<or> token h \<in> set revoked
          then ((None, Some (New ''permission denied'')), revoked)
          else ((Some \<lparr>Data = d\<rparr>, None), revoked)),
     RevokeSelfWithContext =
       (\<lambda>revoked h t. (revokeErr, if revokeErr = None then t # revoked else revoked)),
     Int64 = ex_Int64\<rparr>"

text \<open>
  Sample strategies: a mechanism reports that it has attempted when it is in the list
  \<open>configured\<close>; its attempt succeeds and stores a fresh token in the handle.
\<close>

definition ex_strategy :: "mechanism list \<Rightarrow> mechanism \<Rightarrow> string list strategy" where
  "ex_strategy configured m c =
    (if m \<in> set configured
     then ((True, None), c\<lparr>client := (client c)\<lparr>token := ''hvs.fresh''\<rparr>\<rparr>)
     else ((False, None), c))"

definition ex_strategies :: "mechanism list \<Rightarrow> (string list, unit) strategies" where
  "ex_strategies configured =
    \<lparr>setSecretKeyToken = ex_strategy configured SecretKeyToken,
     setAppRoleToken = ex_strategy configured AppRole,
     setKubernetesAuthToken = ex_strategy configured Kubernetes,
     setLdapAuthToken = ex_strategy configured Ldap,
     setUserPassAuthToken = ex_strategy configured UserPass,
     setJwtAuthToken = ex_strategy configured Jwt,
     setCertAuthToken = (\<lambda>c cfg. ex_strategy configured Cert c),
     setIamAuthToken = ex_strategy configured Iam\<rparr>"

text \<open>
  Sample strategies in which only AppRole is configured, and its attempt leaves the handle
  in another namespace.
\<close>

definition ex_moving_strategies :: "(string list, unit) strategies" where
  "ex_moving_strategies =
    (ex_strategies [])
      \<lparr>setAppRoleToken := (\<lambda>c. ((True, None), SetNamespace ''elsewhere'' c))\<rparr>"

text \<open>
  Sample sessions: a store with an auth configuration (the store's namespace and the auth
  namespace given), a store without one, and a session from a store, the token held and
  the namespace active on the handle.
\<close>

definition ex_store :: "string option \<Rightarrow> string option \<Rightarrow> VaultProvider" where
  "ex_store ns authns =
    \<lparr>Auth = Some \<lparr>VaultAuth.Namespace = authns\<rparr>, VaultProvider.Namespace = ns\<rparr>"

definition ex_store_no_auth :: VaultProvider where
  "ex_store_no_auth = \<lparr>Auth = None, VaultProvider.Namespace = Some ''ops''\<rparr>"

definition ex_session :: "VaultProvider \<Rightarrow> string \<Rightarrow> string \<Rightarrow> string list client" where
  "ex_session st tok active =
    \<lparr>store = Some st, client = \<lparr>token = tok, activeNamespace = active\<rparr>,
     log = [], apicalls = [], world = []\<rparr>"

text \<open>The data of sample lookup responses.\<close>

definition ex_service_3600 :: "string \<rightharpoonup> jvalue" where
  "ex_service_3600 =
    [''type'' \<mapsto> JString ''service'', ''ttl'' \<mapsto> JNumber ''3600'',
     ''expire_time'' \<mapsto> JString ''2030-01-01T00:00:00Z'']"

definition ex_service_59 :: "string \<rightharpoonup> jvalue" where
  "ex_service_59 =
    [''type'' \<mapsto> JString ''service'', ''ttl'' \<mapsto> JNumber ''59'',
     ''expire_time'' \<mapsto> JString ''2030-01-01T00:00:00Z'']"

definition ex_root_59 :: "string \<rightharpoonup> jvalue" where
  "ex_root_59 =
    [''type'' \<mapsto> JString ''service'', ''ttl'' \<mapsto> JNumber ''59'', ''expire_time'' \<mapsto> JNil]"

definition ex_batch_3600 :: "string \<rightharpoonup> jvalue" where
  "ex_batch_3600 =
    [''type'' \<mapsto> JString ''batch'', ''ttl'' \<mapsto> JNumber ''3600'',
     ''expire_time'' \<mapsto> JString ''2030-01-01T00:00:00Z'']"

definition ex_batch_no_ttl :: "string \<rightharpoonup> jvalue" where
  "ex_batch_no_ttl = [''type'' \<mapsto> JString ''batch'', ''expire_time'' \<mapsto> JNil]"

definition ex_no_type :: "string \<rightharpoonup> jvalue" where
  "ex_no_type = [''ttl'' \<mapsto> JNumber ''3600'', ''expire_time'' \<mapsto> JNil]"

definition ex_service_no_ttl :: "string \<rightharpoonup> jvalue" where
  "ex_service_no_ttl = [''type'' \<mapsto> JString ''service'', ''expire_time'' \<mapsto> JNil]"

definition ex_service_no_expire :: "string \<rightharpoonup> jvalue" where
  "ex_service_no_expire = [''type'' \<mapsto> JString ''service'', ''ttl'' \<mapsto> JNumber ''3600'']"

definition ex_serviceAccountRef :: ServiceAccountSelector where
  "ex_serviceAccountRef =
    \<lparr>Name = ''vault-auth'', ServiceAccountSelector.Namespace = Some ''tenant'',
     ServiceAccountSelector.Audiences = [''vault'']\<rparr>"

section \<open>Properties\<close>

subsection \<open>What the steps leave unchanged\<close>

text \<open>
  \<^verbatim>\<open>checkToken\<close> changes the world and the metrics only; entering the namespace scope
  changes the active namespace and the log only.
\<close>

lemma checkToken_state:
  "snd (checkToken E c) =
     ObserveAPICall CallHCVaultLookupSelf
       (snd (fst (LookupSelfWithContext E (world c) (client c))))
       (c\<lparr>world := snd (LookupSelfWithContext E (world c) (client c))\<rparr>)"
  by (simp add: checkToken_def Let_def split_beta)

lemma checkToken_client: "client (snd (checkToken E c)) = client c"
  by (simp add: checkToken_state ObserveAPICall_def)

lemma setAuth_check_client: "client (snd (setAuth_check E c)) = client c"
  by (simp add: setAuth_check_def checkToken_client)

lemma useAuthNamespace_returns:
  "store c = Some st \<Longrightarrow> \<exists>f. fst (useAuthNamespace c) = Returned f"
  by (simp add: useAuthNamespace_def split: option.splits)

lemma useAuthNamespace_token:
  "token (client (snd (useAuthNamespace c))) = token (client c)"
  by (simp add: useAuthNamespace_def SetNamespace_def Info_def split: option.splits)

lemma useAuthNamespace_world: "world (snd (useAuthNamespace c)) = world c"
  by (simp add: useAuthNamespace_def SetNamespace_def Info_def split: option.splits)

lemma useAuthNamespace_restore_token:
  "fst (useAuthNamespace c) = Returned f \<Longrightarrow> token (client (f x)) = token (client x)"
  by (auto simp add: useAuthNamespace_def SetNamespace_def Info_def split: option.splits if_splits)

lemma useAuthNamespace_eq:
  assumes "store c = Some st" and "Auth st = Some a"
  shows "useAuthNamespace c =
    (case VaultAuth.Namespace a of
       None \<Rightarrow> (Returned (\<lambda>c'. c'), c)
     | Some an \<Rightarrow>
        if an \<noteq> (case VaultProvider.Namespace st of None \<Rightarrow> [] | Some n \<Rightarrow> n) then
          (Returned
             (\<lambda>c'. SetNamespace (case VaultProvider.Namespace st of None \<Rightarrow> [] | Some n \<Rightarrow> n)
                     (Info ''Restoring client namespace to namespace=%s''
                        [case VaultProvider.Namespace st of None \<Rightarrow> [] | Some n \<Rightarrow> n] c')),
           SetNamespace an (Info ''Using namespace=%s for the vault login'' [an] c))
        else (Returned (\<lambda>c'. c'), c))"
  using assms by (simp add: useAuthNamespace_def split: option.splits)

lemma setAuth_enter_token: "token (client (setAuth_enter st c)) = token (client c)"
  by (simp add: setAuth_enter_def SetNamespace_def split: option.splits)

lemma setAuth_enter_world: "world (setAuth_enter st c) = world c"
  by (simp add: setAuth_enter_def SetNamespace_def split: option.splits)

lemma setAuth_enter_store: "store (setAuth_enter st c) = store c"
  by (simp add: setAuth_enter_def SetNamespace_def split: option.splits)

subsection \<open>The chain and its specification\<close>

text \<open>
  The unrolled chain of \<^verbatim>\<open>setAuth\<close> is the walk of the specification over the fixed
  priority order.
\<close>

lemma setAuth_chain_spec_walk: "setAuth_chain S cfg c = spec_walk S cfg priority_order c"
  by (simp add: setAuth_chain_def priority_order_def Let_def split_beta)

lemma spec_walk_prefix:
  "take (length (snd (snd (spec_walk S cfg ms c)))) ms = snd (snd (spec_walk S cfg ms c))"
  by (induction ms arbitrary: c) (simp_all add: split_beta)

lemma spec_walk_allDeclined:
  "spec_allDeclined S cfg ms c \<Longrightarrow>
     fst (spec_walk S cfg ms c) = Some (New errAuthFormat) \<and>
     snd (snd (spec_walk S cfg ms c)) = ms"
  by (induction ms arbitrary: c) (simp_all add: split_beta)

lemma spec_walk_namespace:
  assumes "\<forall>m s. activeNamespace (client (snd (strategy_of S cfg m s))) = activeNamespace (client s)"
  shows "activeNamespace (client (fst (snd (spec_walk S cfg ms c)))) = activeNamespace (client c)"
  using assms by (induction ms arbitrary: c) (simp_all add: split_beta Info_def)

lemma setAuth_body_namespace:
  assumes "\<forall>m s. activeNamespace (client (snd (strategy_of S cfg m s))) = activeNamespace (client s)"
  shows "activeNamespace (client (fst (snd (setAuth_body E S cfg c)))) = activeNamespace (client c)"
proof (cases "setAuth_check E c")
  case (Pair r c1)
  have c1: "client c1 = client c"
    using setAuth_check_client [of E c] Pair by simp
  show ?thesis
  proof (cases r)
    case Panic
    with Pair c1 show ?thesis by (simp add: setAuth_body_def)
  next
    case (Returned v)
    obtain tokenExists err where v: "v = (tokenExists, err)" by (cases v)
    show ?thesis
    proof (cases tokenExists)
      case True
      with Pair Returned v c1 show ?thesis by (simp add: setAuth_body_def Info_def)
    next
      case False
      have "activeNamespace (client (fst (snd (spec_walk S cfg priority_order c1)))) =
              activeNamespace (client c1)"
        using assms by (rule spec_walk_namespace)
      with Pair Returned v c1 False show ?thesis
        by (simp add: setAuth_body_def setAuth_chain_spec_walk split_beta)
    qed
  qed
qed

subsection \<open>The sample collaborators\<close>

lemmas ex_defs = ex_backend_def ex_session_def ex_store_def ex_Int64_def ex_strategies_def
  ex_strategy_def

lemma ex_strategies_namespace:
  "activeNamespace (client (snd (strategy_of (ex_strategies configured) cfg m s))) =
     activeNamespace (client s)"
  by (cases m) (simp_all add: ex_strategies_def ex_strategy_def)

subsection \<open>Re-use of a valid token\<close>

text \<open>
  Claim C1. A session with a store holds a token. The lookup made for that token, in the
  namespace in which \<^verbatim>\<open>setAuth\<close> makes it, answers with a response whose type is a string
  other than \<^verbatim>\<open>batch\<close>, whose ttl reads as an integer of at least 60 and which has an
  \<^verbatim>\<open>expire_time\<close> field. Then \<^verbatim>\<open>setAuth\<close> returns nil, has invoked no mechanism
  strategy, whatever the strategies are, and the handle still holds the same token.
\<close>

theorem setAuth_reuses_valid_token:
  assumes "store c = Some st"
    and "Token (client c) \<noteq> []"
    and "LookupSelfWithContext E (world c)
           (client (snd (useAuthNamespace (setAuth_enter st c)))) = ((Some secret, None), w)"
    and "Data secret ''type'' = Some (JString tokenType)" and "tokenType \<noteq> ''batch''"
    and "Data secret ''ttl'' = Some (JNumber num)" and "Int64 E num = Inr ttlInt"
    and "60 \<le> sint ttlInt"
    and "Data secret ''expire_time'' = Some expireTime"
  shows "fst (setAuth E S cfg c) = Returned None
       \<and> snd (snd (setAuth E S cfg c)) = []
       \<and> Token (client (fst (snd (setAuth E S cfg c)))) = Token (client c)"
proof (cases "Auth st")
  case None
  with assms(1) show ?thesis by (simp add: setAuth_def)
next
  case (Some a)
  define c0 where "c0 = setAuth_enter st c"
  have st0: "store c0 = Some st"
    using assms(1) by (simp add: c0_def setAuth_enter_store)
  obtain f where f: "fst (useAuthNamespace c0) = Returned f"
    using useAuthNamespace_returns [OF st0] by blast
  define c1 where "c1 = snd (useAuthNamespace c0)"
  have u: "useAuthNamespace c0 = (Returned f, c1)"
    using f by (simp add: c1_def prod_eq_iff)
  have tok: "token (client c1) = token (client c)"
    by (simp add: c1_def c0_def useAuthNamespace_token setAuth_enter_token)
  have wld: "world c1 = world c"
    by (simp add: c1_def c0_def useAuthNamespace_world setAuth_enter_world)
  have lookup: "LookupSelfWithContext E (world c1) (client c1) = ((Some secret, None), w)"
    using assms(3) unfolding c1_def c0_def
    by (simp add: useAuthNamespace_world setAuth_enter_world)
  have verdict: "fst (checkToken E c1) = Returned (True, None)"
    using lookup assms(4-9) by (simp add: checkToken_def)
  define c2 where "c2 = snd (checkToken E c1)"
  have chk: "setAuth_check E c1 = (Returned (True, None), c2)"
    using verdict assms(2) tok by (simp add: setAuth_check_def Token_def c2_def prod_eq_iff)
  have body: "setAuth_body E S cfg c1 = (Returned None, Info ''Re-using existing token'' [] c2, [])"
    using chk by (simp add: setAuth_body_def)
  have res: "setAuth E S cfg c = (Returned None, f (Info ''Re-using existing token'' [] c2), [])"
    using assms(1) Some u body by (simp add: setAuth_def c0_def)
  have "token (client (f (Info ''Re-using existing token'' [] c2))) = token (client c)"
    using useAuthNamespace_restore_token [OF f] tok
    by (simp add: c2_def Info_def checkToken_client)
  with res show ?thesis by (simp add: Token_def)
qed

text \<open>
  The statement at a sample session that holds a valid token under an auth namespace,
  with AppRole and Kubernetes both configured.
\<close>

theorem setAuth_reuses_valid_token_witness:
  "fst (setAuth (ex_backend ex_service_3600 None) (ex_strategies [AppRole, Kubernetes]) ()
          (ex_session (ex_store (Some ''ops'') (Some ''auth'')) ''hvs.old'' [])) = Returned None
   \<and> snd (snd (setAuth (ex_backend ex_service_3600 None) (ex_strategies [AppRole, Kubernetes]) ()
          (ex_session (ex_store (Some ''ops'') (Some ''auth'')) ''hvs.old'' []))) = []
   \<and> Token (client (fst (snd (setAuth (ex_backend ex_service_3600 None)
          (ex_strategies [AppRole, Kubernetes]) ()
          (ex_session (ex_store (Some ''ops'') (Some ''auth'')) ''hvs.old'' [])))))
       = ''hvs.old''"
  using setAuth_reuses_valid_token [of
      "ex_session (ex_store (Some ''ops'') (Some ''auth'')) ''hvs.old'' []"
      "ex_store (Some ''ops'') (Some ''auth'')" "ex_backend ex_service_3600 None"
      "\<lparr>Data = ex_service_3600\<rparr>" "[]" "''service''" "''3600''" 3600
      "JString ''2030-01-01T00:00:00Z''" "ex_strategies [AppRole, Kubernetes]" "()"]
  by (simp add: ex_backend_def ex_session_def ex_store_def ex_Int64_def ex_service_3600_def
      Token_def useAuthNamespace_def setAuth_enter_def SetNamespace_def Info_def Let_def)

subsection \<open>Priority order\<close>

text \<open>
  Claim C2. When the auth configuration is present and the check of the held token has
  found no token to re-use, \<^verbatim>\<open>setAuth\<close> returns what the walk of the specification over
  the order secret-reference token, AppRole, Kubernetes, LDAP, username/password, JWT,
  certificate, IAM returns: the error of the first strategy that reports that it has
  attempted, with the strategies invoked being those up to that one, in this order, and
  none after it. The strategies invoked are always an initial part of the order. In
  particular, when the secret-reference strategy has not attempted and the AppRole strategy
  has, \<^verbatim>\<open>setAuth\<close> returns the error of the AppRole strategy and the Kubernetes strategy
  is not invoked, whatever it would report.
\<close>

theorem setAuth_priority_order:
  assumes "store c = Some st" and "Auth st = Some a"
    and "setAuth_check E (snd (useAuthNamespace (setAuth_enter st c))) = (Returned (False, e0), c1)"
  shows "fst (setAuth E S cfg c) = Returned (fst (spec_walk S cfg priority_order c1))
       \<and> snd (snd (setAuth E S cfg c)) = snd (snd (spec_walk S cfg priority_order c1))
       \<and> take (length (snd (snd (setAuth E S cfg c)))) priority_order = snd (snd (setAuth E S cfg c))
       \<and> (\<forall>e1 c2 err c3.
            setSecretKeyToken S c1 = ((False, e1), c2) \<and> setAppRoleToken S c2 = ((True, err), c3) \<longrightarrow>
              fst (setAuth E S cfg c) = Returned err
            \<and> snd (snd (setAuth E S cfg c)) = [SecretKeyToken, AppRole])"
proof -
  note CHK = assms(3)
  define c0 where "c0 = setAuth_enter st c"
  have st0: "store c0 = Some st"
    using assms(1) by (simp add: c0_def setAuth_enter_store)
  obtain f where f: "fst (useAuthNamespace c0) = Returned f"
    using useAuthNamespace_returns [OF st0] by blast
  define cs where "cs = snd (useAuthNamespace c0)"
  have u: "useAuthNamespace c0 = (Returned f, cs)"
    using f by (simp add: cs_def prod_eq_iff)
  have chk: "setAuth_check E cs = (Returned (False, e0), c1)"
    using CHK by (simp add: cs_def c0_def)
  obtain r c2 invoked where w: "spec_walk S cfg priority_order c1 = (r, c2, invoked)"
    by (cases "spec_walk S cfg priority_order c1") auto
  have body: "setAuth_body E S cfg cs = (Returned r, c2, invoked)"
    using chk w by (simp add: setAuth_body_def setAuth_chain_spec_walk)
  have "setAuth E S cfg c = (Returned r, f c2, invoked)"
    using assms(1,2) body u by (simp add: setAuth_def c0_def [symmetric])
  then have res: "setAuth E S cfg c =
      (Returned (fst (spec_walk S cfg priority_order c1)), f c2,
       snd (snd (spec_walk S cfg priority_order c1)))"
    using w by simp
  have "\<forall>e1 c2 err c3.
          setSecretKeyToken S c1 = ((False, e1), c2) \<and> setAppRoleToken S c2 = ((True, err), c3) \<longrightarrow>
            fst (spec_walk S cfg priority_order c1) = err \<and>
            snd (snd (spec_walk S cfg priority_order c1)) = [SecretKeyToken, AppRole]"
    by (simp add: priority_order_def)
  with res spec_walk_prefix [of S cfg priority_order c1] show ?thesis by simp
qed

text \<open>
  The statement at a sample session without a token, with AppRole and Kubernetes both
  configured.
\<close>

theorem setAuth_priority_order_witness:
  "fst (setAuth (ex_backend ex_service_59 None) (ex_strategies [AppRole, Kubernetes]) ()
          (ex_session (ex_store None None) [] [])) = Returned None
   \<and> snd (snd (setAuth (ex_backend ex_service_59 None) (ex_strategies [AppRole, Kubernetes]) ()
          (ex_session (ex_store None None) [] []))) = [SecretKeyToken, AppRole]"
proof -
  let ?S = "ex_strategies [AppRole, Kubernetes]"
  let ?c = "ex_session (ex_store None None) [] []"
  let ?c' = "?c\<lparr>client := (client ?c)\<lparr>token := ''hvs.fresh''\<rparr>\<rparr>"
  have h1: "store ?c = Some (ex_store None None)"
    by (simp add: ex_session_def)
  have h2: "Auth (ex_store None None) = Some \<lparr>VaultAuth.Namespace = None\<rparr>"
    by (simp add: ex_store_def)
  have h3: "setAuth_check (ex_backend ex_service_59 None)
              (snd (useAuthNamespace (setAuth_enter (ex_store None None) ?c))) =
            (Returned (False, None), ?c)"
    by (simp add: ex_session_def ex_store_def Token_def useAuthNamespace_def setAuth_enter_def
        setAuth_check_def)
  have k1: "setSecretKeyToken ?S ?c = ((False, None), ?c)"
    by (simp add: ex_strategies_def ex_strategy_def)
  have k2: "setAppRoleToken ?S ?c = ((True, None), ?c')"
    by (simp add: ex_strategies_def ex_strategy_def)
  show ?thesis
    using setAuth_priority_order [OF h1 h2 h3, of ?S "()"] k1 k2 by blast
qed

subsection \<open>The verdict of checkToken\<close>

text \<open>
  Claim C3. The lookup answers with a response whose type is a string other than
  \<^verbatim>\<open>batch\<close> and whose ttl reads as an integer below 60. When the \<^verbatim>\<open>expire_time\<close> field
  holds a value other than nil, \<^verbatim>\<open>checkToken\<close> returns \<^verbatim>\<open>(false, nil)\<close>; when it holds
  nil (the token has no expiration time), \<^verbatim>\<open>checkToken\<close> returns \<^verbatim>\<open>(true, nil)\<close>.
\<close>

theorem checkToken_expiry_buffer:
  assumes "LookupSelfWithContext E (world c) (client c) = ((Some secret, None), w)"
    and "Data secret ''type'' = Some (JString tokenType)" and "tokenType \<noteq> ''batch''"
    and "Data secret ''ttl'' = Some (JNumber num)" and "Int64 E num = Inr ttlInt"
    and "sint ttlInt < 60"
    and "Data secret ''expire_time'' = Some expireTime"
  shows "(expireTime \<noteq> JNil \<longrightarrow> fst (checkToken E c) = Returned (False, None))
       \<and> (expireTime = JNil \<longrightarrow> fst (checkToken E c) = Returned (True, None))"
  using assms by (simp add: checkToken_def)

text \<open>
  The statement at a ttl of 59, once with an expiration time and once with nil.
\<close>

theorem checkToken_expiry_buffer_witness:
  "fst (checkToken (ex_backend ex_service_59 None) (ex_session (ex_store None None) ''hvs.old'' []))
     = Returned (False, None)
   \<and> fst (checkToken (ex_backend ex_root_59 None) (ex_session (ex_store None None) ''hvs.old'' []))
     = Returned (True, None)"
  using checkToken_expiry_buffer [of "ex_backend ex_service_59 None"
      "ex_session (ex_store None None) ''hvs.old'' []" "\<lparr>Data = ex_service_59\<rparr>" "[]"
      "''service''" "''59''" 59 "JString ''2030-01-01T00:00:00Z''"]
    checkToken_expiry_buffer [of "ex_backend ex_root_59 None"
      "ex_session (ex_store None None) ''hvs.old'' []" "\<lparr>Data = ex_root_59\<rparr>" "[]"
      "''service''" "''59''" 59 JNil]
  by (simp add: ex_defs ex_service_59_def ex_root_59_def)

text \<open>
  Claim C4, as stated, fails: a response of type \<^verbatim>\<open>batch\<close> that has no \<^verbatim>\<open>ttl\<close> field
  gets the verdict \<^verbatim>\<open>(false, nil)\<close> and no error, since the type is judged before the
  \<^verbatim>\<open>ttl\<close> field is read.
\<close>

theorem checkToken_malformed_counterexample:
  "ex_batch_no_ttl ''ttl'' = None
   \<and> checkToken (ex_backend ex_batch_no_ttl None) (ex_session (ex_store None None) ''hvs.old'' [])
     = (Returned (False, None),
        (ex_session (ex_store None None) ''hvs.old'' [])
          \<lparr>apicalls := [(CallHCVaultLookupSelf, None)]\<rparr>)"
  by (simp add: checkToken_def ObserveAPICall_def ex_defs ex_batch_no_ttl_def)

text \<open>
  Claim C4, amended. A response without a \<^verbatim>\<open>type\<close> field yields the error that the
  type could not be asserted. A response whose type is a string other than \<^verbatim>\<open>batch\<close>
  yields an error when it has no \<^verbatim>\<open>ttl\<close> field, and, when its ttl is a
  \<^verbatim>\<open>json.Number\<close>, also when it has no \<^verbatim>\<open>expire_time\<close> field: the error of reading
  the ttl when the ttl is no 64-bit integer, the error that no expiration time was found
  otherwise. In none of these cases is the result \<^verbatim>\<open>(false, nil)\<close>.
\<close>

theorem checkToken_malformed:
  assumes "LookupSelfWithContext E (world c) (client c) = ((Some secret, None), w)"
  shows "(Data secret ''type'' = None \<longrightarrow>
            fst (checkToken E c) = Returned (False, Some (New ''could not assert token type'')))
       \<and> (\<forall>tokenType.
            Data secret ''type'' = Some (JString tokenType) \<and> tokenType \<noteq> ''batch'' \<longrightarrow>
              (Data secret ''ttl'' = None \<longrightarrow>
                 fst (checkToken E c) = Returned (False, Some (New ''no TTL found in response'')))
            \<and> (\<forall>num. Data secret ''ttl'' = Some (JNumber num)
                       \<and> Data secret ''expire_time'' = None \<longrightarrow>
                 fst (checkToken E c) =
                   Returned (False, Some
                     (case Int64 E num of
                        Inl e \<Rightarrow> Errorf ''invalid token TTL: %v: %w'' [num] e
                      | Inr ttlInt \<Rightarrow> New ''no expiration time found in response''))))"
  using assms by (auto simp add: checkToken_def split: sum.splits)

text \<open>
  The statement at three responses: one without type, one without ttl, one without
  expiration field.
\<close>

theorem checkToken_malformed_witness:
  "fst (checkToken (ex_backend ex_no_type None) (ex_session (ex_store None None) ''hvs.old'' []))
     = Returned (False, Some (New ''could not assert token type''))
   \<and> fst (checkToken (ex_backend ex_service_no_ttl None)
            (ex_session (ex_store None None) ''hvs.old'' []))
     = Returned (False, Some (New ''no TTL found in response''))
   \<and> fst (checkToken (ex_backend ex_service_no_expire None)
            (ex_session (ex_store None None) ''hvs.old'' []))
     = Returned (False, Some (New ''no expiration time found in response''))"
  using checkToken_malformed [of "ex_backend ex_no_type None"
      "ex_session (ex_store None None) ''hvs.old'' []" "\<lparr>Data = ex_no_type\<rparr>" "[]"]
    checkToken_malformed [of "ex_backend ex_service_no_ttl None"
      "ex_session (ex_store None None) ''hvs.old'' []" "\<lparr>Data = ex_service_no_ttl\<rparr>" "[]"]
    checkToken_malformed [of "ex_backend ex_service_no_expire None"
      "ex_session (ex_store None None) ''hvs.old'' []" "\<lparr>Data = ex_service_no_expire\<rparr>" "[]"]
  by (simp add: ex_defs ex_no_type_def ex_service_no_ttl_def ex_service_no_expire_def)

text \<open>
  Claim C5. When the lookup answers with a response whose type is \<^verbatim>\<open>batch\<close>,
  \<^verbatim>\<open>checkToken\<close> returns \<^verbatim>\<open>(false, nil)\<close>, whatever the other fields of the response
  are and whether or not \<^verbatim>\<open>ttl\<close> and \<^verbatim>\<open>expire_time\<close> are present.
\<close>

theorem checkToken_batch:
  assumes "LookupSelfWithContext E (world c) (client c) = ((Some secret, None), w)"
    and "Data secret ''type'' = Some (JString ''batch'')"
  shows "fst (checkToken E c) = Returned (False, None)"
  using assms by (simp add: checkToken_def)

text \<open>
  The statement at a batch token with a ttl of 3600 and at a batch response without ttl.
\<close>

theorem checkToken_batch_witness:
  "fst (checkToken (ex_backend ex_batch_3600 None) (ex_session (ex_store None None) ''hvs.old'' []))
     = Returned (False, None)
   \<and> fst (checkToken (ex_backend ex_batch_no_ttl None)
            (ex_session (ex_store None None) ''hvs.old'' []))
     = Returned (False, None)"
  using checkToken_batch [of "ex_backend ex_batch_3600 None"
      "ex_session (ex_store None None) ''hvs.old'' []" "\<lparr>Data = ex_batch_3600\<rparr>" "[]"]
    checkToken_batch [of "ex_backend ex_batch_no_ttl None"
      "ex_session (ex_store None None) ''hvs.old'' []" "\<lparr>Data = ex_batch_no_ttl\<rparr>" "[]"]
  by (simp add: ex_defs ex_batch_3600_def ex_batch_no_ttl_def)

subsection \<open>No auth configuration, no mechanism\<close>

text \<open>
  Claim C6. For a session with a store: when the auth configuration is nil,
  \<^verbatim>\<open>setAuth\<close> returns nil and leaves the whole session as it was (no namespace is set, no
  lookup is made, no strategy is invoked). When the auth configuration is present, the
  check of the held token has found no token to re-use and every strategy, invoked in
  turn, reports that it has not attempted, \<^verbatim>\<open>setAuth\<close> returns the error
  \<^verbatim>\<open>cannot initialize Vault client: no valid auth method specified\<close>, after it has invoked
  all eight strategies.
\<close>

theorem setAuth_no_method:
  assumes "store c = Some st"
  shows "(Auth st = None \<longrightarrow> setAuth E S cfg c = (Returned None, c, []))
       \<and> (\<forall>a e0 c1.
            Auth st = Some a
            \<and> setAuth_check E (snd (useAuthNamespace (setAuth_enter st c))) = (Returned (False, e0), c1)
            \<and> spec_allDeclined S cfg priority_order c1 \<longrightarrow>
              fst (setAuth E S cfg c) =
                Returned (Some (New ''cannot initialize Vault client: no valid auth method specified''))
            \<and> snd (snd (setAuth E S cfg c)) = priority_order)"
proof (intro conjI allI impI)
  assume "Auth st = None"
  with assms show "setAuth E S cfg c = (Returned None, c, [])"
    by (simp add: setAuth_def)
next
  fix a e0 c1
  assume h: "Auth st = Some a
            \<and> setAuth_check E (snd (useAuthNamespace (setAuth_enter st c))) = (Returned (False, e0), c1)
            \<and> spec_allDeclined S cfg priority_order c1"
  then have CHK: "setAuth_check E (snd (useAuthNamespace (setAuth_enter st c))) = (Returned (False, e0), c1)"
    by simp
  define c0 where "c0 = setAuth_enter st c"
  have st0: "store c0 = Some st"
    using assms(1) by (simp add: c0_def setAuth_enter_store)
  obtain f where f: "fst (useAuthNamespace c0) = Returned f"
    using useAuthNamespace_returns [OF st0] by blast
  define cs where "cs = snd (useAuthNamespace c0)"
  have u: "useAuthNamespace c0 = (Returned f, cs)"
    using f by (simp add: cs_def prod_eq_iff)
  have chk: "setAuth_check E cs = (Returned (False, e0), c1)"
    using CHK by (simp add: cs_def c0_def)
  have walk: "fst (spec_walk S cfg priority_order c1) = Some (New errAuthFormat)"
             "snd (snd (spec_walk S cfg priority_order c1)) = priority_order"
    using h spec_walk_allDeclined [of S cfg priority_order c1] by simp_all
  obtain r c2 invoked where w: "spec_walk S cfg priority_order c1 = (r, c2, invoked)"
    by (cases "spec_walk S cfg priority_order c1") auto
  have body: "setAuth_body E S cfg cs = (Returned (Some (New errAuthFormat)), c2, priority_order)"
    using chk walk w by (simp add: setAuth_body_def setAuth_chain_spec_walk)
  have res: "setAuth E S cfg c = (Returned (Some (New errAuthFormat)), f c2, priority_order)"
    using assms(1) h body u by (simp add: setAuth_def c0_def [symmetric])
  show "fst (setAuth E S cfg c) =
          Returned (Some (New ''cannot initialize Vault client: no valid auth method specified''))"
    using res by (simp add: errAuthFormat_def)
  show "snd (snd (setAuth E S cfg c)) = priority_order"
    using res by simp
qed

text \<open>
  The statement at a session whose store has no auth configuration, and at a session
  with an auth configuration in which no mechanism is configured.
\<close>

theorem setAuth_no_method_witness:
  "setAuth (ex_backend ex_service_59 None) (ex_strategies [AppRole]) ()
     (ex_session ex_store_no_auth [] []) = (Returned None, ex_session ex_store_no_auth [] [], [])
   \<and> fst (setAuth (ex_backend ex_service_59 None) (ex_strategies []) ()
          (ex_session (ex_store None None) [] [])) =
       Returned (Some (New ''cannot initialize Vault client: no valid auth method specified''))
   \<and> snd (snd (setAuth (ex_backend ex_service_59 None) (ex_strategies []) ()
          (ex_session (ex_store None None) [] []))) =
       [SecretKeyToken, AppRole, Kubernetes, Ldap, UserPass, Jwt, Cert, Iam]"
  using setAuth_no_method [of "ex_session ex_store_no_auth [] []" ex_store_no_auth
      "ex_backend ex_service_59 None" "ex_strategies [AppRole]" "()"]
    setAuth_no_method [of "ex_session (ex_store None None) [] []" "ex_store None None"
      "ex_backend ex_service_59 None" "ex_strategies []" "()"]
  by (simp add: ex_session_def ex_store_def ex_store_no_auth_def ex_strategies_def
      ex_strategy_def priority_order_def
      Token_def useAuthNamespace_def setAuth_enter_def setAuth_check_def)

subsection \<open>The namespace after setAuth\<close>

text \<open>
  Claim C7, as stated, fails: with no namespace in the store and no auth namespace,
  \<^verbatim>\<open>setAuth\<close> never sets the namespace of the handle, so a handle that was in the
  namespace \<^verbatim>\<open>team-a\<close> at the call is still there at the return, and not in the empty
  namespace.
\<close>

theorem setAuth_namespace_restore_counterexample:
  "VaultProvider.Namespace (ex_store None None) = None
   \<and> store (ex_session (ex_store None None) [] ''team-a'') = Some (ex_store None None)
   \<and> activeNamespace (client (fst (snd
        (setAuth (ex_backend ex_service_59 None) (ex_strategies []) ()
           (ex_session (ex_store None None) [] ''team-a'')))))
      = ''team-a''"
  by (simp add: setAuth_def setAuth_enter_def useAuthNamespace_def setAuth_body_def
      setAuth_check_def setAuth_chain_def Token_def
      ex_session_def ex_store_def ex_strategies_def ex_strategy_def)

text \<open>
  Claim C7, amended. For a session with a store and an auth configuration, on every exit
  path (re-use, success or error of a mechanism, no mechanism, panic of the check): the
  closure returned by \<^verbatim>\<open>useAuthNamespace\<close> is applied once, to the state the body
  leaves, and it is the identity when the auth namespace is absent or equal to the
  operating namespace (the store's namespace, the empty string when the store has none).
  When the auth namespace differs from the operating namespace, the active namespace at
  the return is the operating namespace, whatever the strategies have done. When the
  closure is the identity and the strategies do not change the active namespace, the
  active namespace at the return is the store's namespace when the store has one, and the
  namespace the handle had at the call when the store has none.
\<close>

theorem setAuth_namespace_restore:
  assumes "store c = Some st" and "Auth st = Some a"
  shows "(\<exists>restoreNamespace c1.
            useAuthNamespace (setAuth_enter st c) = (Returned restoreNamespace, c1)
          \<and> setAuth E S cfg c =
              (case setAuth_body E S cfg c1 of
                 (r, c2, invoked) \<Rightarrow> (r, restoreNamespace c2, invoked))
          \<and> (VaultAuth.Namespace a = None
               \<or> VaultAuth.Namespace a =
                   Some (case VaultProvider.Namespace st of None \<Rightarrow> [] | Some n \<Rightarrow> n) \<longrightarrow>
             restoreNamespace = (\<lambda>c'. c')))
       \<and> (\<forall>an. VaultAuth.Namespace a = Some an
               \<and> an \<noteq> (case VaultProvider.Namespace st of None \<Rightarrow> [] | Some n \<Rightarrow> n) \<longrightarrow>
            activeNamespace (client (fst (snd (setAuth E S cfg c)))) =
              (case VaultProvider.Namespace st of None \<Rightarrow> [] | Some n \<Rightarrow> n))
       \<and> ((VaultAuth.Namespace a = None
             \<or> VaultAuth.Namespace a =
                 Some (case VaultProvider.Namespace st of None \<Rightarrow> [] | Some n \<Rightarrow> n))
            \<and> (\<forall>m s. activeNamespace (client (snd (strategy_of S cfg m s))) =
                       activeNamespace (client s)) \<longrightarrow>
            activeNamespace (client (fst (snd (setAuth E S cfg c)))) =
              (case VaultProvider.Namespace st of
                 None \<Rightarrow> activeNamespace (client c)
               | Some n \<Rightarrow> n))"
proof -
  define c0 where "c0 = setAuth_enter st c"
  define ns where "ns = (case VaultProvider.Namespace st of None \<Rightarrow> [] | Some n \<Rightarrow> n)"
  have st0: "store c0 = Some st"
    using assms(1) by (simp add: c0_def setAuth_enter_store)
  note u = useAuthNamespace_eq [OF st0 assms(2), folded ns_def]
  have ns0: "activeNamespace (client c0) =
               (case VaultProvider.Namespace st of None \<Rightarrow> activeNamespace (client c) | Some n \<Rightarrow> n)"
    by (simp add: c0_def setAuth_enter_def SetNamespace_def split: option.splits)
  show ?thesis
  proof (cases "\<exists>an. VaultAuth.Namespace a = Some an \<and> an \<noteq> ns")
    case True
    then obtain an where an: "VaultAuth.Namespace a = Some an" "an \<noteq> ns" by blast
    define f :: "'a client \<Rightarrow> 'a client" where
      "f = (\<lambda>c'. SetNamespace ns (Info ''Restoring client namespace to namespace=%s'' [ns] c'))"
    define c1 where "c1 = SetNamespace an (Info ''Using namespace=%s for the vault login'' [an] c0)"
    have u1: "useAuthNamespace c0 = (Returned f, c1)"
      using u an by (simp add: f_def c1_def)
    have res: "setAuth E S cfg c =
        (case setAuth_body E S cfg c1 of (r, c2, invoked) \<Rightarrow> (r, f c2, invoked))"
      using assms(1,2) u1 by (simp add: setAuth_def c0_def [symmetric])
    have fin: "activeNamespace (client (fst (snd (setAuth E S cfg c)))) = ns"
      by (simp add: res split_beta f_def SetNamespace_def)
    have "\<exists>restoreNamespace c1.
            useAuthNamespace (setAuth_enter st c) = (Returned restoreNamespace, c1)
          \<and> setAuth E S cfg c =
              (case setAuth_body E S cfg c1 of
                 (r, c2, invoked) \<Rightarrow> (r, restoreNamespace c2, invoked))
          \<and> (VaultAuth.Namespace a = None \<or> VaultAuth.Namespace a = Some ns \<longrightarrow>
             restoreNamespace = (\<lambda>c'. c'))"
      using u1 res an unfolding c0_def by auto
    with fin an show ?thesis
      unfolding ns_def by auto
  next
    case False
    then have noop: "VaultAuth.Namespace a = None \<or> VaultAuth.Namespace a = Some ns"
      by (cases "VaultAuth.Namespace a") auto
    have u1: "useAuthNamespace c0 = (Returned (\<lambda>c'. c'), c0)"
      using u False by (simp split: option.splits)
    have res: "setAuth E S cfg c =
        (case setAuth_body E S cfg c0 of (r, c2, invoked) \<Rightarrow> (r, c2, invoked))"
      using assms(1,2) u1 by (simp add: setAuth_def c0_def [symmetric])
    have fin: "activeNamespace (client (fst (snd (setAuth E S cfg c)))) =
                 (case VaultProvider.Namespace st of
                    None \<Rightarrow> activeNamespace (client c)
                  | Some n \<Rightarrow> n)"
      if pres: "\<forall>m s. activeNamespace (client (snd (strategy_of S cfg m s))) =
                       activeNamespace (client s)"
    proof -
      have "activeNamespace (client (fst (snd (setAuth_body E S cfg c0)))) =
              activeNamespace (client c0)"
        using pres by (rule setAuth_body_namespace)
      then show ?thesis
        by (simp add: res split_beta ns0)
    qed
    have "\<exists>restoreNamespace c1.
            useAuthNamespace (setAuth_enter st c) = (Returned restoreNamespace, c1)
          \<and> setAuth E S cfg c =
              (case setAuth_body E S cfg c1 of
                 (r, c2, invoked) \<Rightarrow> (r, restoreNamespace c2, invoked))
          \<and> (VaultAuth.Namespace a = None \<or> VaultAuth.Namespace a = Some ns \<longrightarrow>
             restoreNamespace = (\<lambda>c'. c'))"
      using u1 res unfolding c0_def by auto
    with fin False show ?thesis
      unfolding ns_def by auto
  qed
qed

text \<open>
  The statement at a store in the namespace \<^verbatim>\<open>ops\<close>: once authenticating in the
  namespace \<^verbatim>\<open>auth\<close> through an AppRole strategy that leaves the handle in another
  namespace, and once without an auth namespace, through a strategy that leaves the
  namespace alone.
\<close>

theorem setAuth_namespace_restore_witness:
  "activeNamespace (client (fst (snd
      (setAuth (ex_backend ex_service_59 None) ex_moving_strategies ()
         (ex_session (ex_store (Some ''ops'') (Some ''auth'')) ''hvs.old'' ''team-a'')))))
    = ''ops''
   \<and> activeNamespace (client (fst (snd
      (setAuth (ex_backend ex_service_59 None) (ex_strategies [AppRole, Kubernetes]) ()
         (ex_session (ex_store (Some ''ops'') None) ''hvs.old'' ''team-a'')))))
    = ''ops''"
proof -
  let ?E = "ex_backend ex_service_59 None"
  let ?c = "ex_session (ex_store (Some ''ops'') (Some ''auth'')) ''hvs.old'' ''team-a''"
  let ?d = "ex_session (ex_store (Some ''ops'') None) ''hvs.old'' ''team-a''"
  have c1: "store ?c = Some (ex_store (Some ''ops'') (Some ''auth''))"
    by (simp add: ex_session_def)
  have c2: "Auth (ex_store (Some ''ops'') (Some ''auth'')) =
              Some \<lparr>VaultAuth.Namespace = Some ''auth''\<rparr>"
    by (simp add: ex_store_def)
  have d1: "store ?d = Some (ex_store (Some ''ops'') None)"
    by (simp add: ex_session_def)
  have d2: "Auth (ex_store (Some ''ops'') None) = Some \<lparr>VaultAuth.Namespace = None\<rparr>"
    by (simp add: ex_store_def)
  have pres: "\<forall>m s. activeNamespace
                       (client (snd (strategy_of (ex_strategies [AppRole, Kubernetes]) () m s))) =
                     activeNamespace (client s)"
    by (simp add: ex_strategies_namespace)
  have first: "activeNamespace (client (fst (snd (setAuth ?E ex_moving_strategies () ?c)))) =
                 ''ops''"
    using setAuth_namespace_restore [OF c1 c2, of ?E ex_moving_strategies "()"]
    by (simp add: ex_store_def)
  have second: "activeNamespace (client (fst (snd
                   (setAuth ?E (ex_strategies [AppRole, Kubernetes]) () ?d)))) = ''ops''"
    using setAuth_namespace_restore [OF d1 d2, of ?E "ex_strategies [AppRole, Kubernetes]" "()"]
      pres
    by (simp add: ex_store_def)
  from first second show ?thesis by simp
qed

subsection \<open>Revocation\<close>

text \<open>
  Claim C8, as stated, fails: on the sample backend, which rejects a lookup made without
  a token, the first call revokes the token, returns nil and clears the credential, and
  the second call returns the error of its lookup.
\<close>

theorem revokeTokenIfValid_twice_counterexample:
  "fst (revokeTokenIfValid (ex_backend ex_service_3600 None)
          (ex_session (ex_store None None) ''hvs.old'' [])) = Returned None
   \<and> Token (client (snd (revokeTokenIfValid (ex_backend ex_service_3600 None)
          (ex_session (ex_store None None) ''hvs.old'' [])))) = []
   \<and> fst (revokeTokenIfValid (ex_backend ex_service_3600 None)
          (snd (revokeTokenIfValid (ex_backend ex_service_3600 None)
                  (ex_session (ex_store None None) ''hvs.old'' [])))) \<noteq> Returned None"
  by (simp add: revokeTokenIfValid_def checkToken_def ObserveAPICall_def ClearToken_def Token_def
      ex_backend_def ex_session_def ex_Int64_def ex_service_3600_def)

text \<open>
  Claim C8, amended. When the token is valid and the revoke call succeeds,
  \<^verbatim>\<open>revokeTokenIfValid\<close> returns nil and the credential is empty afterwards. A second
  call, on the session the first one left, makes the lookup again, without a token: it
  returns nil and changes nothing more when that lookup gets the verdict
  \<^verbatim>\<open>(false, nil)\<close>, and it returns the error of that lookup, wrapped, when the lookup
  fails.
\<close>

theorem revokeTokenIfValid_twice:
  assumes "checkToken E c = (Returned (True, None), c1)"
    and "RevokeSelfWithContext E (world c1) (client c1) (Token (client c1)) = (None, w)"
  shows "fst (revokeTokenIfValid E c) = Returned None
       \<and> Token (client (snd (revokeTokenIfValid E c))) = []
       \<and> (\<forall>c3. checkToken E (snd (revokeTokenIfValid E c)) = (Returned (False, None), c3) \<longrightarrow>
            revokeTokenIfValid E (snd (revokeTokenIfValid E c)) = (Returned None, c3))
       \<and> (\<forall>valid e c3.
            checkToken E (snd (revokeTokenIfValid E c)) = (Returned (valid, Some e), c3) \<longrightarrow>
            revokeTokenIfValid E (snd (revokeTokenIfValid E c)) =
              (Returned (Some (Errorf ''error while revoking token: %w'' [] e)), c3))"
  using assms
  by (simp add: revokeTokenIfValid_def ClearToken_def Token_def ObserveAPICall_def
      errVaultRevokeToken_def)

text \<open>
  The statement on the sample backend.
\<close>

theorem revokeTokenIfValid_twice_witness:
  "revokeTokenIfValid (ex_backend ex_service_3600 None)
          (ex_session (ex_store None None) ''hvs.old'' []) =
     (Returned None,
      (ex_session (ex_store None None) [] [])
        \<lparr>apicalls := [(CallHCVaultLookupSelf, None), (CallHCVaultRevokeSelf, None)],
          world := [''hvs.old'']\<rparr>)
   \<and> fst (revokeTokenIfValid (ex_backend ex_service_3600 None)
          ((ex_session (ex_store None None) [] [])
        \<lparr>apicalls := [(CallHCVaultLookupSelf, None), (CallHCVaultRevokeSelf, None)],
          world := [''hvs.old'']\<rparr>)) =
     Returned (Some (Errorf ''error while revoking token: %w'' [] (New ''permission denied'')))"
proof -
  let ?E = "ex_backend ex_service_3600 None"
  let ?c = "ex_session (ex_store None None) ''hvs.old'' []"
  let ?c1 = "?c\<lparr>apicalls := [(CallHCVaultLookupSelf, None)]\<rparr>"
  let ?c2 = "(ex_session (ex_store None None) [] [])
        \<lparr>apicalls := [(CallHCVaultLookupSelf, None), (CallHCVaultRevokeSelf, None)],
          world := [''hvs.old'']\<rparr>"
  have h1: "checkToken ?E ?c = (Returned (True, None), ?c1)"
    by (simp add: checkToken_def ObserveAPICall_def ex_backend_def ex_session_def ex_Int64_def
        ex_service_3600_def)
  have h2: "RevokeSelfWithContext ?E (world ?c1) (client ?c1) (Token (client ?c1)) =
              (None, [''hvs.old''])"
    by (simp add: ex_backend_def ex_session_def Token_def)
  have first: "revokeTokenIfValid ?E ?c = (Returned None, ?c2)"
    by (simp add: revokeTokenIfValid_def checkToken_def ObserveAPICall_def ClearToken_def
        Token_def ex_backend_def ex_session_def ex_Int64_def ex_service_3600_def)
  have h3: "checkToken ?E ?c2 =
      (Returned (False, Some (New ''permission denied'')),
       ?c2\<lparr>apicalls := apicalls ?c2 @ [(CallHCVaultLookupSelf, Some (New ''permission denied''))]\<rparr>)"
    by (simp add: checkToken_def ObserveAPICall_def ex_backend_def ex_session_def)
  show ?thesis
    using revokeTokenIfValid_twice [OF h1 h2] first h3 by auto
qed

text \<open>
  Claim C10. \<^verbatim>\<open>revokeTokenIfValid\<close> leaves the handle, and with it the credential, as it
  was, unless the token was found valid and the revoke call succeeded, in which case it
  returns nil and the credential is empty. In particular the handle is unchanged when the
  lookup fails, when the token is found not valid, and when the revoke call fails.
\<close>

theorem revokeTokenIfValid_credential:
  "(client (snd (revokeTokenIfValid E c)) = client c
      \<or> (fst (checkToken E c) = Returned (True, None)
          \<and> fst (RevokeSelfWithContext E (world (snd (checkToken E c))) (client c)
                   (Token (client c))) = None
          \<and> fst (revokeTokenIfValid E c) = Returned None
          \<and> Token (client (snd (revokeTokenIfValid E c))) = []))
   \<and> (\<forall>valid e. fst (checkToken E c) = Returned (valid, Some e) \<longrightarrow>
         client (snd (revokeTokenIfValid E c)) = client c)
   \<and> (fst (checkToken E c) = Returned (False, None) \<longrightarrow>
         client (snd (revokeTokenIfValid E c)) = client c)
   \<and> (\<forall>e. fst (checkToken E c) = Returned (True, None)
          \<and> fst (RevokeSelfWithContext E (world (snd (checkToken E c))) (client c)
                   (Token (client c))) = Some e \<longrightarrow>
         client (snd (revokeTokenIfValid E c)) = client c)"
proof -
  obtain r c1 where ck: "checkToken E c = (r, c1)" by (cases "checkToken E c")
  have c1: "client c1 = client c"
    using checkToken_client [of E c] ck by simp
  obtain e w where rv: "RevokeSelfWithContext E (world c1) (client c) (Token (client c)) = (e, w)"
    by (cases "RevokeSelfWithContext E (world c1) (client c) (Token (client c))")
  show ?thesis
  proof (cases r)
    case Panic
    with ck c1 show ?thesis by (simp add: revokeTokenIfValid_def)
  next
    case (Returned v)
    obtain valid err where v: "v = (valid, err)" by (cases v)
    show ?thesis
    proof (cases err)
      case (Some e')
      with ck c1 Returned v show ?thesis by (simp add: revokeTokenIfValid_def)
    next
      case None
      show ?thesis
      proof (cases valid)
        case False
        with ck c1 Returned v None show ?thesis by (simp add: revokeTokenIfValid_def)
      next
        case True
        show ?thesis
        proof (cases e)
          case None': None
          with ck c1 rv Returned v None True show ?thesis
            by (simp add: revokeTokenIfValid_def ClearToken_def Token_def ObserveAPICall_def)
        next
          case (Some e')
          with ck c1 rv Returned v None True show ?thesis
            by (simp add: revokeTokenIfValid_def ClearToken_def Token_def ObserveAPICall_def)
        qed
      qed
    qed
  qed
qed

text \<open>
  The statement at a failing lookup, at a token about to expire, and at a backend whose
  revoke call fails.
\<close>

theorem revokeTokenIfValid_credential_witness:
  "client (snd (revokeTokenIfValid (ex_backend ex_service_3600 None)
                  (ex_session (ex_store None None) [] []))) =
     client (ex_session (ex_store None None) [] [])
   \<and> client (snd (revokeTokenIfValid (ex_backend ex_service_59 None)
                  (ex_session (ex_store None None) ''hvs.old'' []))) =
     client (ex_session (ex_store None None) ''hvs.old'' [])
   \<and> client (snd (revokeTokenIfValid (ex_backend ex_service_3600 (Some (New ''Vault is sealed'')))
                  (ex_session (ex_store None None) ''hvs.old'' []))) =
     client (ex_session (ex_store None None) ''hvs.old'' [])"
proof -
  let ?c = "ex_session (ex_store None None) ''hvs.old'' []"
  let ?sealed = "ex_backend ex_service_3600 (Some (New ''Vault is sealed''))"
  have a: "fst (checkToken (ex_backend ex_service_3600 None)
                  (ex_session (ex_store None None) [] [])) =
             Returned (False, Some (New ''permission denied''))"
    by (simp add: checkToken_def ex_backend_def ex_session_def)
  have b: "fst (checkToken (ex_backend ex_service_59 None) ?c) = Returned (False, None)"
    by (simp add: checkToken_def ex_backend_def ex_session_def ex_Int64_def ex_service_59_def)
  have c1: "fst (checkToken ?sealed ?c) = Returned (True, None)"
    by (simp add: checkToken_def ex_backend_def ex_session_def ex_Int64_def ex_service_3600_def)
  have c2: "fst (RevokeSelfWithContext ?sealed (world (snd (checkToken ?sealed ?c))) (client ?c)
                   (Token (client ?c))) = Some (New ''Vault is sealed'')"
    by (simp add: ex_backend_def)
  show ?thesis
    using revokeTokenIfValid_credential [of "ex_backend ex_service_3600 None"
        "ex_session (ex_store None None) [] []"]
      revokeTokenIfValid_credential [of "ex_backend ex_service_59 None" ?c]
      revokeTokenIfValid_credential [of ?sealed ?c]
      a b c1 c2
    by blast
qed

subsection \<open>The service-account token request\<close>

text \<open>
  Claim C9. In the token request built by \<^verbatim>\<open>createServiceAccountToken\<close>, the audiences
  are, as a set, the union of the audiences of the service-account reference and the
  additional audiences; the expiration is the one the caller gave; and when the store kind
  is \<^verbatim>\<open>ClusterSecretStore\<close> and the reference has a namespace, the namespace of the
  request is that namespace. The request is the one sent to the cluster, in its own
  namespace and for the name of the reference.
\<close>

theorem createServiceAccountToken_request_fields:
  "set (TokenRequestSpec.Audiences
          (Spec (createServiceAccountToken_request storeKind namespace serviceAccountRef
                   additionalAud expirationSeconds))) =
     set (ServiceAccountSelector.Audiences serviceAccountRef) \<union> set additionalAud
   \<and> ExpirationSeconds
        (Spec (createServiceAccountToken_request storeKind namespace serviceAccountRef
                 additionalAud expirationSeconds)) = Some expirationSeconds
   \<and> (\<forall>n. storeKind = ClusterSecretStoreKind
           \<and> ServiceAccountSelector.Namespace serviceAccountRef = Some n \<longrightarrow>
          ObjectMeta.Namespace
            (ObjectMeta (createServiceAccountToken_request storeKind namespace serviceAccountRef
                           additionalAud expirationSeconds)) = n)
   \<and> createServiceAccountToken CreateToken storeKind namespace serviceAccountRef additionalAud
        expirationSeconds =
      (case CreateToken
              (ObjectMeta.Namespace
                 (ObjectMeta (createServiceAccountToken_request storeKind namespace
                                serviceAccountRef additionalAud expirationSeconds)))
              (Name serviceAccountRef)
              (createServiceAccountToken_request storeKind namespace serviceAccountRef
                 additionalAud expirationSeconds) of
         Inl err \<Rightarrow> ([], Some (Errorf errGetKubeSATokenRequest [Name serviceAccountRef] err))
       | Inr tok \<Rightarrow> (tok, None))"
  by (auto simp add: createServiceAccountToken_request_def createServiceAccountToken_def Let_def
      split: option.splits)

text \<open>
  The statement at a cluster-wide store and a reference in the namespace \<^verbatim>\<open>tenant\<close>.
\<close>

theorem createServiceAccountToken_request_fields_witness:
  "set (TokenRequestSpec.Audiences
          (Spec (createServiceAccountToken_request ClusterSecretStoreKind ''default''
                   ex_serviceAccountRef [''extra''] 600))) = {''vault'', ''extra''}
   \<and> ExpirationSeconds
        (Spec (createServiceAccountToken_request ClusterSecretStoreKind ''default''
                 ex_serviceAccountRef [''extra''] 600)) = Some 600
   \<and> ObjectMeta.Namespace
        (ObjectMeta (createServiceAccountToken_request ClusterSecretStoreKind ''default''
                       ex_serviceAccountRef [''extra''] 600)) = ''tenant''"
proof -
  have h: "ServiceAccountSelector.Namespace ex_serviceAccountRef = Some ''tenant''"
    by (simp add: ex_serviceAccountRef_def)
  have au: "set (ServiceAccountSelector.Audiences ex_serviceAccountRef) \<union> set [''extra''] =
              {''vault'', ''extra''}"
    by (auto simp add: ex_serviceAccountRef_def)
  show ?thesis
    using createServiceAccountToken_request_fields [of ClusterSecretStoreKind "''default''"
        ex_serviceAccountRef "[''extra'']" 600 "\<lambda>ns name req. Inr ''token''"] h au
    by simp
qed

end
